theory Spec2Isabelle
  imports Complex_Main "HOL-Library.Multiset"
begin

section \<open>Values held in the per-study sequences\<close>

text \<open>
  The sequences handed to the statistics code of \<^verbatim>\<open>dvha/models/plot.py\<close> hold
  numbers, strings (patient ids, study uids), study dates (held here as day numbers)
  and, for a missing observation, the string \<^verbatim>\<open>'None'\<close>.  A Python number or
  date never compares equal to a string, which is what constructor equality of this
  datatype gives.
\<close>

datatype pyval = Num real | Str string | Date int

section \<open>Plot.clean\_data\<close>

text \<open>
  \<^verbatim>\<open>[i for i, value in enumerate(var) if value == 'None']\<close>
\<close>

definition none_indices :: "pyval list \<Rightarrow> nat list" where
  "none_indices var = map fst (filter (\<lambda>(i, v). v = Str ''None'') (enumerate 0 var))"

text \<open>
  The loop \<^verbatim>\<open>for var in data: bad_indices.extend(...)\<close> starting from the empty
  list, followed by \<^verbatim>\<open>set(bad_indices)\<close>.
\<close>

definition bad_indices :: "pyval list list \<Rightarrow> nat set" where
  "bad_indices data = set (fold (\<lambda>var acc. acc @ none_indices var) data [])"

text \<open>
  \<^verbatim>\<open>[value for i, value in enumerate(var) if i not in bad_indices]\<close>
\<close>

definition keep_good :: "nat set \<Rightarrow> pyval list \<Rightarrow> pyval list" where
  "keep_good bad var = map snd (filter (\<lambda>(i, v). i \<notin> bad) (enumerate 0 var))"

text \<open>
  One round of \<^verbatim>\<open>for var in [mrn, uid, dates]: if var: ans.append(...)\<close>.
  A companion is a keyword argument defaulting to \<^verbatim>\<open>None\<close>; \<^verbatim>\<open>if var\<close> is
  false for \<^verbatim>\<open>None\<close> and for the empty list.
\<close>

fun append_companion :: "nat set \<Rightarrow> pyval list option \<Rightarrow> pyval list list \<Rightarrow> pyval list list" where
  "append_companion bad None ans = ans"
| "append_companion bad (Some []) ans = ans"
| "append_companion bad (Some var) ans = ans @ [keep_good bad var]"

definition clean_data ::
  "pyval list list \<Rightarrow> pyval list option \<Rightarrow> pyval list option \<Rightarrow> pyval list option
     \<Rightarrow> pyval list list" where
  "clean_data data mrn uid dates =
     (let bad = bad_indices data;
          ans = map (keep_good bad) data
      in fold (append_companion bad) [mrn, uid, dates] ans)"

text \<open>Python's truth value of a companion argument.\<close>

fun truthy :: "pyval list option \<Rightarrow> bool" where
  "truthy None = False"
| "truthy (Some var) = (var \<noteq> [])"

section \<open>Errors\<close>

text \<open>The Python exceptions that the modelled code can raise.\<close>

datatype error = IndexError | KeyError | ValueError | TypeError

section \<open>Control chart: classification of the points\<close>

text \<open>The fields of \<^verbatim>\<open>Options\<close> (\<^verbatim>\<open>dvha/options.py\<close>) read by the classification.\<close>

record options =
  PLOT_COLOR :: string
  CONTROL_CHART_CIRCLE_ALPHA :: real
  CONTROL_CHART_OUT_OF_CONTROL_COLOR :: string
  CONTROL_CHART_OUT_OF_CONTROL_ALPHA :: real

text \<open>The values \<^verbatim>\<open>DefaultOptions.__init__\<close> assigns to these fields.\<close>

definition DefaultOptions :: options where
  "DefaultOptions =
     \<lparr>PLOT_COLOR = ''blue'',
      CONTROL_CHART_CIRCLE_ALPHA = 3 / 10,
      CONTROL_CHART_OUT_OF_CONTROL_COLOR = ''red'',
      CONTROL_CHART_OUT_OF_CONTROL_ALPHA = 1\<rparr>"

text \<open>
  Indexing a two-element list with a Python \<^verbatim>\<open>bool\<close>: \<^verbatim>\<open>False\<close> is index 0
  and \<^verbatim>\<open>True\<close> is index 1.
\<close>

definition bool_index :: "'a list \<Rightarrow> bool \<Rightarrow> 'a" where
  "bool_index xs b = xs ! (if b then 1 else 0)"

text \<open>
  Lines 1067 to 1070 of \<^verbatim>\<open>PlotControlChart.update_plot\<close>: the colour and the
  alpha of every point of \<^verbatim>\<open>y\<close>, for the limits \<^verbatim>\<open>get_control_limits(y)\<close>
  returned.  The chained comparison \<^verbatim>\<open>ucl > value > lcl\<close> is
  \<^verbatim>\<open>ucl > value and value > lcl\<close>.  Finite floats are compared exactly, so the
  comparison is the one of the reals.
\<close>

definition update_plot :: "options \<Rightarrow> real \<Rightarrow> real \<Rightarrow> real list \<Rightarrow> string list \<times> real list" where
  "update_plot opts ucl lcl y =
     (let colors = [CONTROL_CHART_OUT_OF_CONTROL_COLOR opts, PLOT_COLOR opts];
          alphas = [CONTROL_CHART_OUT_OF_CONTROL_ALPHA opts, CONTROL_CHART_CIRCLE_ALPHA opts];
          color = map (\<lambda>value. bool_index colors (ucl > value \<and> value > lcl)) y;
          alpha = map (\<lambda>value. bool_index alphas (ucl > value \<and> value > lcl)) y
      in (color, alpha))"

text \<open>
  Lines 1099 to 1102 of \<^verbatim>\<open>PlotControlChart.update_adjusted_control_chart\<close>: the
  same two comprehensions over the regression residuals.
\<close>

definition update_adjusted_control_chart ::
  "options \<Rightarrow> real \<Rightarrow> real \<Rightarrow> real list \<Rightarrow> string list \<times> real list" where
  "update_adjusted_control_chart opts ucl lcl residuals =
     (let colors = [CONTROL_CHART_OUT_OF_CONTROL_COLOR opts, PLOT_COLOR opts];
          alphas = [CONTROL_CHART_OUT_OF_CONTROL_ALPHA opts, CONTROL_CHART_CIRCLE_ALPHA opts];
          color = map (\<lambda>value. bool_index colors (ucl > value \<and> value > lcl)) residuals;
          alpha = map (\<lambda>value. bool_index alphas (ucl > value \<and> value > lcl)) residuals
      in (color, alpha))"

text \<open>
  \<^verbatim>\<open>SCALAR_D\<close>, as \<^verbatim>\<open>DefaultOptions.__init__\<close> sets it: the Shewhart constant for
  the moving range of two consecutive observations.
\<close>

definition SCALAR_D :: real where
  "SCALAR_D = 1128 / 1000"

text \<open>The arithmetic mean of a sample.\<close>

definition mean :: "real list \<Rightarrow> real" where
  "mean xs = sum_list xs / real (length xs)"

text \<open>The moving ranges \<open>|x\<^sub>i - x\<^sub>i\<^sub>-\<^sub>1|\<close> of a sample.\<close>

definition moving_ranges :: "real list \<Rightarrow> real list" where
  "moving_ranges xs = map (\<lambda>(a, b). \<bar>b - a\<bar>) (zip xs (tl xs))"

text \<open>
  Modelled from the spec: \<^verbatim>\<open>get_control_limits\<close> lives in
  \<^verbatim>\<open>dvha/tools/stats.py\<close>, which is not among the source files.  The spec's
  ControlLimitCalculator: the center line is the arithmetic mean of the sample; the
  spread estimate is the mean of the moving ranges scaled by the Shewhart constant for
  individuals charts (the divisor \<^verbatim>\<open>SCALAR_D\<close>); the limits are the center plus
  and minus three times that estimate.  The spec leaves to the calculator the rejection
  of empty or too-small samples without saying more; a sample with no moving range
  (fewer than two values) is rejected here, with \<open>None\<close>.
\<close>

definition get_control_limits :: "real list \<Rightarrow> (real \<times> real \<times> real) option" where
  "get_control_limits y =
     (if length y < 2 then None
      else let center_line = mean y;
               sigma = mean (moving_ranges y) / SCALAR_D;
               ucl = center_line + 3 * sigma;
               lcl = center_line - 3 * sigma
           in Some (center_line, ucl, lcl))"

section \<open>Time series: percentile band and trend\<close>

text \<open>
  \<^verbatim>\<open>numpy.percentile(a, q)\<close> for a one-dimensional array, with numpy's default
  linear interpolation: on the sorted array the \<open>q\<close>-th percentile sits at the
  position \<open>q / 100 * (n - 1)\<close>, between the two neighbouring order statistics.
  numpy raises \<^verbatim>\<open>ValueError\<close> for \<open>q\<close> outside \<open>[0, 100]\<close>.  The arithmetic is
  that of the reals.  \<^verbatim>\<open>update_trend\<close> only reaches the call with a non-empty
  array; for the empty array, where there is no order statistic to read, the model
  returns \<^verbatim>\<open>IndexError\<close>.
\<close>

definition np_percentile :: "real list \<Rightarrow> real \<Rightarrow> error + real" where
  "np_percentile a q =
     (if \<not> (0 \<le> q \<and> q \<le> 100) then Inl ValueError
      else if a = [] then Inl IndexError
      else let s = sort a;
               h = q / 100 * real (length a - 1);
               lo = nat \<lfloor>h\<rfloor>;
               hi = min (lo + 1) (length a - 1)
           in Inr (s ! lo + (h - real lo) * (s ! hi - s ! lo)))"

text \<open>
  Lines 446 to 449 of \<^verbatim>\<open>PlotTimeSeries.update_trend\<close>, in the order the source
  evaluates them: the upper bound, the average, the lower bound.
\<close>

record band =
  upper_bound :: real
  average :: real
  lower_bound :: real

definition percentile_band :: "real list \<Rightarrow> real \<Rightarrow> error + band" where
  "percentile_band y_np percentile =
     (case np_percentile y_np (50 + percentile / 2) of
        Inl e \<Rightarrow> Inl e
      | Inr upper \<Rightarrow>
     (case np_percentile y_np 50 of
        Inl e \<Rightarrow> Inl e
      | Inr avg \<Rightarrow>
     (case np_percentile y_np (50 - percentile / 2) of
        Inl e \<Rightarrow> Inl e
      | Inr lower \<Rightarrow> Inr \<lparr>upper_bound = upper, average = avg, lower_bound = lower\<rparr>)))"

text \<open>
  The data of a bokeh \<^verbatim>\<open>ColumnDataSource\<close>: a dictionary from column names to
  lists, kept in insertion order.  Reading a missing key raises \<^verbatim>\<open>KeyError\<close>.
\<close>

type_synonym column_data = "(string \<times> pyval list) list"

definition column :: "column_data \<Rightarrow> string \<Rightarrow> error + pyval list" where
  "column d k = (case map_of d k of None \<Rightarrow> Inl KeyError | Some v \<Rightarrow> Inr v)"

text \<open>
  The sources of \<^verbatim>\<open>PlotTimeSeries\<close> that the trend reads and writes.  The
  \<^verbatim>\<open>hist\<close> source, written by \<^verbatim>\<open>update_histogram\<close> only, is left out.
\<close>

record time_series =
  src_plot :: column_data
  src_trend :: column_data
  src_bound :: column_data
  src_patch :: column_data

text \<open>The sources as \<^verbatim>\<open>PlotTimeSeries.__init__\<close> creates them.\<close>

definition time_series_init :: time_series where
  "time_series_init =
     \<lparr>src_plot = [(''x'', []), (''y'', []), (''mrn'', []), (''uid'', [])],
      src_trend = [(''x'', []), (''y'', []), (''mrn'', [])],
      src_bound = [(''x'', []), (''mrn'', []), (''upper'', []), (''avg'', []), (''lower'', [])],
      src_patch = [(''x'', []), (''y'', [])]\<rparr>"

text \<open>
  \<^verbatim>\<open>Plot.clear_source\<close>: every column of the source becomes the empty list.
\<close>

definition clear_source :: "column_data \<Rightarrow> column_data" where
  "clear_source d = map (\<lambda>(data_key, v). (data_key, [])) d"

text \<open>\<^verbatim>\<open>Plot.clear_sources\<close>: \<^verbatim>\<open>clear_source\<close> on every source.\<close>

definition clear_sources :: "time_series \<Rightarrow> time_series" where
  "clear_sources s =
     s\<lparr>src_plot := clear_source (src_plot s),
       src_trend := clear_source (src_trend s),
       src_bound := clear_source (src_bound s),
       src_patch := clear_source (src_patch s)\<rparr>"

text \<open>
  \<^verbatim>\<open>PlotTimeSeries.update_plot_data\<close>: only the studies whose \<^verbatim>\<open>y\<close> is not
  \<^verbatim>\<open>'None'\<close> are plotted.
\<close>

definition update_plot_data ::
  "pyval list \<Rightarrow> pyval list \<Rightarrow> pyval list \<Rightarrow> pyval list \<Rightarrow> time_series \<Rightarrow> time_series" where
  "update_plot_data x y mrn uid s =
     (let valid_indices = map fst (filter (\<lambda>(i, v). v \<noteq> Str ''None'') (enumerate 0 y));
          valid = (\<lambda>var. map snd (filter (\<lambda>(i, v). i \<in> set valid_indices) (enumerate 0 var)))
      in s\<lparr>src_plot := [(''x'', valid x), (''y'', valid y), (''mrn'', valid mrn), (''uid'', valid uid)]\<rparr>)"

text \<open>
  \<^verbatim>\<open>np.array(y)\<close> followed by arithmetic: an array holding anything but numbers
  makes numpy's percentile raise \<^verbatim>\<open>TypeError\<close>.
\<close>

fun numbers :: "pyval list \<Rightarrow> error + real list" where
  "numbers [] = Inr []"
| "numbers (Num r # vs) = (case numbers vs of Inl e \<Rightarrow> Inl e | Inr rs \<Rightarrow> Inr (r # rs))"
| "numbers (v # vs) = Inl TypeError"

text \<open>
  \<^verbatim>\<open>PlotTimeSeries.update_trend\<close>.  \<^verbatim>\<open>collapse_into_single_dates\<close> and
  \<^verbatim>\<open>moving_avg\<close> live in \<^verbatim>\<open>dvha/tools/utilities.py\<close>, which is not among the
  source files: they are parameters here, each returning its result or the exception
  it raises.  \<^verbatim>\<open>if x and y\<close> holds when both lists are non-empty; otherwise the
  method does nothing.
\<close>

definition update_trend ::
  "(pyval list \<Rightarrow> pyval list \<Rightarrow> error + 'c) \<Rightarrow> ('c \<Rightarrow> int \<Rightarrow> error + pyval list \<times> pyval list)
     \<Rightarrow> int \<Rightarrow> real \<Rightarrow> time_series \<Rightarrow> error + time_series" where
  "update_trend collapse_into_single_dates moving_avg avg_len percentile s =
     (case column (src_plot s) ''x'' of Inl e \<Rightarrow> Inl e | Inr x \<Rightarrow>
     (case column (src_plot s) ''y'' of Inl e \<Rightarrow> Inl e | Inr y \<Rightarrow>
      if x \<noteq> [] \<and> y \<noteq> [] then
       (case collapse_into_single_dates x y of Inl e \<Rightarrow> Inl e | Inr data_collapsed \<Rightarrow>
       (case moving_avg data_collapsed avg_len of Inl e \<Rightarrow> Inl e | Inr (x_trend, y_trend) \<Rightarrow>
       (case numbers y of Inl e \<Rightarrow> Inl e | Inr y_np \<Rightarrow>
       (case percentile_band y_np percentile of Inl e \<Rightarrow> Inl e | Inr b \<Rightarrow>
          Inr (s\<lparr>src_trend := [(''x'', x_trend), (''y'', y_trend),
                                (''mrn'', replicate (length x_trend) (Str ''Avg''))],
                  src_bound := [(''x'', [x ! 0, last x]),
                                (''mrn'', replicate 2 (Str ''Series Avg'')),
                                (''upper'', replicate 2 (Num (upper_bound b))),
                                (''avg'', replicate 2 (Num (average b))),
                                (''lower'', replicate 2 (Num (lower_bound b))),
                                (''y'', replicate 2 (Num (average b)))],
                  src_patch := [(''x'', [x ! 0, last x, last x, x ! 0]),
                                (''y'', [Num (upper_bound b), Num (upper_bound b),
                                         Num (lower_bound b), Num (lower_bound b)])]\<rparr>)))))
      else Inr s))"

section \<open>Adjusted control chart: residuals in date order\<close>

text \<open>
  \<^verbatim>\<open>numpy.subtract\<close> on two one-dimensional arrays: elementwise when the lengths
  agree, an array of length one is broadcast against the other, and any other pair of
  lengths raises \<^verbatim>\<open>ValueError\<close>.  The arithmetic is that of the reals.
\<close>

definition np_subtract :: "real list \<Rightarrow> real list \<Rightarrow> error + real list" where
  "np_subtract a b =
     (if length a = length b then Inr (map (\<lambda>(u, v). u - v) (zip a b))
      else if length b = 1 then Inr (map (\<lambda>u. u - b ! 0) a)
      else if length a = 1 then Inr (map (\<lambda>v. a ! 0 - v) b)
      else Inl ValueError)"

text \<open>Reading a list at a non-negative index; out of range is \<^verbatim>\<open>IndexError\<close>.\<close>

definition getitem :: "'a list \<Rightarrow> nat \<Rightarrow> error + 'a" where
  "getitem xs i = (if i < length xs then Inr (xs ! i) else Inl IndexError)"

text \<open>The dictionary \<^verbatim>\<open>get_adjusted_control_chart\<close> returns, one field per key.\<close>

record 'd adjusted_chart =
  chart_x :: "int list"
  chart_residuals :: "real list"
  chart_mrn :: "string list"
  chart_uid :: "string list"
  chart_dates :: "'d list"

text \<open>
  The loop \<^verbatim>\<open>for s in range(len(dates))\<close> of lines 1139 to 1143, over the values
  of \<^verbatim>\<open>s\<close> still to come, with the four lists built so far.
\<close>

fun append_sorted ::
  "'d list \<Rightarrow> real list \<Rightarrow> string list \<Rightarrow> string list \<Rightarrow> nat list \<Rightarrow> nat list
     \<Rightarrow> 'd list \<times> real list \<times> string list \<times> string list
     \<Rightarrow> error + 'd list \<times> real list \<times> string list \<times> string list" where
  "append_sorted dates residuals mrn uid sort_index [] acc = Inr acc"
| "append_sorted dates residuals mrn uid sort_index (s # ss)
       (dates_sorted, residuals_sorted, mrn_sorted, uid_sorted) =
     (case getitem sort_index s of Inl e \<Rightarrow> Inl e | Inr k \<Rightarrow>
     (case getitem dates k of Inl e \<Rightarrow> Inl e | Inr d \<Rightarrow>
     (case getitem residuals k of Inl e \<Rightarrow> Inl e | Inr r \<Rightarrow>
     (case getitem mrn k of Inl e \<Rightarrow> Inl e | Inr m \<Rightarrow>
     (case getitem uid k of Inl e \<Rightarrow> Inl e | Inr u \<Rightarrow>
        append_sorted dates residuals mrn uid sort_index ss
          (dates_sorted @ [d], residuals_sorted @ [r], mrn_sorted @ [m], uid_sorted @ [u]))))))"

text \<open>
  \<^verbatim>\<open>PlotControlChart.get_adjusted_control_chart\<close>, from line 1132 on.  Its first two
  lines call \<^verbatim>\<open>stats_data.get_X_and_y\<close> and the fitted model's \<^verbatim>\<open>predict\<close>,
  neither of which is among the source files: what they return (\<^verbatim>\<open>y\<close>,
  \<^verbatim>\<open>mrn\<close>, \<^verbatim>\<open>uid\<close>, \<^verbatim>\<open>dates\<close> and \<^verbatim>\<open>predictions\<close>) is the input
  here.  Python's \<^verbatim>\<open>sorted\<close> with a key is a stable sort, as \<^const>\<open>sort_key\<close> is;
  the dates are of one type with a linear order.
\<close>

definition get_adjusted_control_chart ::
  "real list \<Rightarrow> string list \<Rightarrow> string list \<Rightarrow> ('d::linorder) list \<Rightarrow> real list
     \<Rightarrow> error + 'd adjusted_chart" where
  "get_adjusted_control_chart y mrn uid dates predictions =
     (case np_subtract y predictions of Inl e \<Rightarrow> Inl e | Inr residuals \<Rightarrow>
        let x = map (\<lambda>i. int i + 1) [0..<length y];
            sort_index = sort_key (\<lambda>k. dates ! k) [0..<length dates]
        in (case append_sorted dates residuals mrn uid sort_index [0..<length dates] ([], [], [], []) of
              Inl e \<Rightarrow> Inl e
            | Inr (dates_sorted, residuals_sorted, mrn_sorted, uid_sorted) \<Rightarrow>
                Inr \<lparr>chart_x = x, chart_residuals = residuals_sorted, chart_mrn = mrn_sorted,
                     chart_uid = uid_sorted, chart_dates = dates_sorted\<rparr>))"

section \<open>Properties of clean\_data\<close>

lemma fold_extend_concat:
  "fold (\<lambda>var acc. acc @ f var) data acc0 = acc0 @ concat (map f data)"
  by (induction data arbitrary: acc0) simp_all

lemma set_none_indices:
  "set (none_indices var) = {i. i < length var \<and> var ! i = Str ''None''}"
  by (auto simp: none_indices_def in_set_enumerate_eq image_iff)

lemma bad_indices_iff:
  "i \<in> bad_indices data \<longleftrightarrow> (\<exists>var \<in> set data. i < length var \<and> var ! i = Str ''None'')"
  by (auto simp: bad_indices_def fold_extend_concat set_none_indices)

lemma keep_from:
  "map snd (filter (\<lambda>(i, v). i \<notin> bad) (enumerate n var)) = nths var {j. j + n \<notin> bad}"
proof (induction var arbitrary: n)
  case Nil
  show ?case by simp
next
  case (Cons a var)
  have "map snd (filter (\<lambda>(i, v). i \<notin> bad) (enumerate (Suc n) var)) = nths var {j. j + Suc n \<notin> bad}"
    by (rule Cons.IH)
  then show ?case by (simp add: nths_Cons)
qed

lemma keep_good_nths: "keep_good bad var = nths var {i. i \<notin> bad}"
  using keep_from [of bad 0 var] by (simp add: keep_good_def)

lemma append_companion_eq:
  "append_companion bad c ans = ans @ (if truthy c then [keep_good bad (the c)] else [])"
  by (cases "(bad, c, ans)" rule: append_companion.cases) simp_all

lemma clean_data_unfold:
  "clean_data data mrn uid dates =
     map (keep_good (bad_indices data)) data
       @ map (\<lambda>c. keep_good (bad_indices data) (the c)) (filter truthy [mrn, uid, dates])"
  by (simp add: clean_data_def Let_def append_companion_eq)

lemma unflagged_eq: "{i. i \<notin> bad_indices data} = {i. \<not> (\<exists>var \<in> set data. i < length var \<and> var ! i = Str ''None'')}"
  by (simp add: bad_indices_iff)

lemma bad_indices_bound:
  assumes "\<forall>var \<in> set data. length var = n"
  shows "bad_indices data \<subseteq> {..<n}"
  using assms by (auto simp: bad_indices_iff)

lemma length_keep_good:
  assumes "bad \<subseteq> {..<length var}"
  shows "length (keep_good bad var) = length var - card bad"
proof -
  have fin: "finite bad" using assms by (rule finite_subset) simp
  have "{i. i < length var \<and> i \<notin> bad} = {..<length var} - bad" by auto
  then have "card {i. i < length var \<and> i \<notin> bad} = card ({..<length var} - bad)" by simp
  also have "\<dots> = length var - card bad"
    using assms fin by (simp add: card_Diff_subset)
  finally show ?thesis by (simp add: keep_good_nths length_nths)
qed

lemma clean_data_members:
  "s \<in> set (clean_data data mrn uid dates) \<Longrightarrow>
     \<exists>var. (var \<in> set data \<or> (\<exists>c \<in> set [mrn, uid, dates]. truthy c \<and> var = the c))
        \<and> s = keep_good (bad_indices data) var"
  unfolding clean_data_unfold by (auto split: if_splits)

lemma bad_indices_set:
  "bad_indices data = {i. \<exists>var \<in> set data. i < length var \<and> var ! i = Str ''None''}"
  by (auto simp: bad_indices_iff)

text \<open>
  Claim C1.  \<^verbatim>\<open>clean_data\<close> returns, for every data sequence and every supplied
  companion, exactly the entries whose index is not an index at which some data
  sequence holds the string \<^verbatim>\<open>'None'\<close>, in their original order (\<^const>\<open>nths\<close>
  selects the entries at a set of indices, keeping the order); the data sequences come
  first, then the supplied companions.  For \<^verbatim>\<open>[1,'None',3]\<close> and
  \<^verbatim>\<open>[4,5,'None']\<close> the result is \<^verbatim>\<open>[1]\<close> and \<^verbatim>\<open>[4]\<close>.
\<close>

theorem clean_data_keeps_unflagged:
  "clean_data data mrn uid dates =
     map (\<lambda>var. nths var {i. \<not> (\<exists>var \<in> set data. i < length var \<and> var ! i = Str ''None'')})
       (data @ map the (filter truthy [mrn, uid, dates]))
   \<and> clean_data [[Num 1, Str ''None'', Num 3], [Num 4, Num 5, Str ''None'']] None None None
        = [[Num 1], [Num 4]]"
proof
  show "clean_data data mrn uid dates =
     map (\<lambda>var. nths var {i. \<not> (\<exists>var \<in> set data. i < length var \<and> var ! i = Str ''None'')})
       (data @ map the (filter truthy [mrn, uid, dates]))"
    unfolding clean_data_unfold keep_good_nths unflagged_eq by (simp add: comp_def)
  show "clean_data [[Num 1, Str ''None'', Num 3], [Num 4, Num 5, Str ''None'']] None None None
        = [[Num 1], [Num 4]]"
    by (simp add: clean_data_def bad_indices_def none_indices_def keep_good_def)
qed

theorem clean_data_keeps_unflagged_witness:
  "clean_data [[Num 1, Str ''None'', Num 3], [Num 4, Num 5, Str ''None'']]
       (Some [Str ''a'', Str ''b'', Str ''c'']) None None
     = [[Num 1], [Num 4], [Str ''a'']]
   \<and> map (\<lambda>var. nths var {i. \<not> (\<exists>var \<in> set [[Num 1, Str ''None'', Num 3], [Num 4, Num 5, Str ''None'']].
                                   i < length var \<and> var ! i = Str ''None'')})
         [[Num 1, Str ''None'', Num 3], [Num 4, Num 5, Str ''None''], [Str ''a'', Str ''b'', Str ''c'']]
     = [[Num 1], [Num 4], [Str ''a'']]"
proof -
  have run: "clean_data [[Num 1, Str ''None'', Num 3], [Num 4, Num 5, Str ''None'']]
       (Some [Str ''a'', Str ''b'', Str ''c'']) None None = [[Num 1], [Num 4], [Str ''a'']]"
    by (simp add: clean_data_def bad_indices_def none_indices_def keep_good_def)
  from clean_data_keeps_unflagged
         [of "[[Num 1, Str ''None'', Num 3], [Num 4, Num 5, Str ''None'']]"
             "Some [Str ''a'', Str ''b'', Str ''c'']" None None]
  show ?thesis unfolding run by simp
qed

text \<open>
  Claim C4.  When the data sequences and the supplied companions all have length
  \<open>n\<close>, every returned sequence has length \<open>n\<close> minus the number of distinct
  indices at which some data sequence holds \<^verbatim>\<open>'None'\<close>; and when every index below
  \<open>n\<close> is such an index, every returned sequence is empty.  \<^const>\<open>clean_data\<close>
  is a total function: no input makes it raise.
\<close>

theorem clean_data_lengths:
  assumes "\<forall>var \<in> set data. length var = n"
      and "\<forall>c \<in> set [mrn, uid, dates]. truthy c \<longrightarrow> length (the c) = n"
  shows "(\<forall>s \<in> set (clean_data data mrn uid dates).
            length s = n - card {i. \<exists>var \<in> set data. i < length var \<and> var ! i = Str ''None''})
         \<and> ((\<forall>i < n. \<exists>var \<in> set data. i < length var \<and> var ! i = Str ''None'')
              \<longrightarrow> (\<forall>s \<in> set (clean_data data mrn uid dates). s = []))"
proof -
  let ?bad = "bad_indices data"
  have sub: "?bad \<subseteq> {..<n}" using assms(1) by (rule bad_indices_bound)
  have len: "length s = n - card ?bad" if "s \<in> set (clean_data data mrn uid dates)" for s
  proof -
    from that obtain var where
      src: "var \<in> set data \<or> (\<exists>c \<in> set [mrn, uid, dates]. truthy c \<and> var = the c)"
      and s: "s = keep_good ?bad var"
      using clean_data_members by blast
    from src assms have "length var = n" by auto
    with sub s show ?thesis by (simp add: length_keep_good)
  qed
  have first: "\<forall>s \<in> set (clean_data data mrn uid dates).
      length s = n - card {i. \<exists>var \<in> set data. i < length var \<and> var ! i = Str ''None''}"
    using len by (simp add: bad_indices_set)
  have second: "\<forall>s \<in> set (clean_data data mrn uid dates). s = []"
    if all: "\<forall>i < n. \<exists>var \<in> set data. i < length var \<and> var ! i = Str ''None''"
  proof -
    from all have "{..<n} \<subseteq> ?bad" by (auto simp: bad_indices_iff)
    with sub have "?bad = {..<n}" by auto
    then have "card ?bad = n" by simp
    with len show ?thesis by simp
  qed
  from first second show ?thesis by blast
qed

theorem clean_data_lengths_witness:
  "map length (clean_data [[Num 1, Str ''None'', Num 3], [Num 4, Num 5, Str ''None'']]
                 (Some [Str ''a'', Str ''b'', Str ''c'']) None None) = [1, 1, 1]
   \<and> clean_data [[Str ''None'', Num 2], [Num 7, Str ''None'']]
                 None (Some [Str ''u'', Str ''v'']) None = [[], [], []]"
proof -
  let ?D = "[[Num 1, Str ''None'', Num 3], [Num 4, Num 5, Str ''None'']]"
  let ?M = "Some [Str ''a'', Str ''b'', Str ''c'']"
  let ?E = "[[Str ''None'', Num 2], [Num 7, Str ''None'']]"
  let ?U = "Some [Str ''u'', Str ''v'']"
  have d: "\<forall>var \<in> set ?D. length var = 3" by simp
  have m: "\<forall>c \<in> set [?M, None, None]. truthy c \<longrightarrow> length (the c) = 3" by simp
  have "bad_indices ?D = {Suc 0, Suc (Suc 0)}"
    by (simp add: bad_indices_def none_indices_def insert_commute)
  then have c: "card {i. \<exists>var \<in> set ?D. i < length var \<and> var ! i = Str ''None''} = 2"
    unfolding bad_indices_set [symmetric] by simp
  have e: "\<forall>var \<in> set ?E. length var = 2" by simp
  have u: "\<forall>c \<in> set [None, ?U, None]. truthy c \<longrightarrow> length (the c) = 2" by simp
  have "bad_indices ?E = {0, Suc 0}"
    by (simp add: bad_indices_def none_indices_def insert_commute)
  then have a: "\<forall>i < 2. \<exists>var \<in> set ?E. i < length var \<and> var ! i = Str ''None''"
    using less_2_cases by (fastforce simp: bad_indices_iff [symmetric])
  from clean_data_lengths [OF d m] c have "\<forall>s \<in> set (clean_data ?D ?M None None). length s = 1"
    by simp
  then have "map length (clean_data ?D ?M None None)
      = map (\<lambda>s. 1) (clean_data ?D ?M None None)"
    by (simp cong: map_cong)
  moreover have "length (clean_data ?D ?M None None) = 3"
    by (simp add: clean_data_unfold)
  ultimately have first: "map length (clean_data ?D ?M None None) = [1, 1, 1]"
    by (simp add: map_replicate_const numeral_3_eq_3)
  from clean_data_lengths [OF e u] a
  have "\<forall>s \<in> set (clean_data ?E None ?U None). s = []"
    by blast
  then have "replicate (length (clean_data ?E None ?U None)) [] = clean_data ?E None ?U None"
    by (rule replicate_length_same)
  moreover have "length (clean_data ?E None ?U None) = 3"
    by (simp add: clean_data_unfold)
  ultimately have second: "clean_data ?E None ?U None = [[], [], []]"
    by (simp add: numeral_3_eq_3)
  from first second show ?thesis by blast
qed

text \<open>
  Claim C9.  The result has one entry per data sequence plus one per companion that is
  neither \<^verbatim>\<open>None\<close> nor empty; the data sequences come first and the supplied
  companions follow in the order mrn, uid, dates, a companion that is \<^verbatim>\<open>None\<close>
  or empty contributing nothing.
\<close>

theorem clean_data_companions:
  "length (clean_data data mrn uid dates)
     = length data + (if truthy mrn then 1 else 0) + (if truthy uid then 1 else 0)
         + (if truthy dates then 1 else 0)
   \<and> take (length data) (clean_data data mrn uid dates) = map (keep_good (bad_indices data)) data
   \<and> drop (length data) (clean_data data mrn uid dates)
       = (if truthy mrn then [keep_good (bad_indices data) (the mrn)] else [])
         @ (if truthy uid then [keep_good (bad_indices data) (the uid)] else [])
         @ (if truthy dates then [keep_good (bad_indices data) (the dates)] else [])"
  unfolding clean_data_unfold by simp

theorem clean_data_companions_witness:
  "length (clean_data [[Num 1, Str ''None''], [Num 4, Num 5]]
             (Some []) None (Some [Str ''d0'', Str ''d1''])) = 3
   \<and> drop 2 (clean_data [[Num 1, Str ''None''], [Num 4, Num 5]]
             (Some []) None (Some [Str ''d0'', Str ''d1''])) = [[Str ''d0'']]"
proof -
  have bad: "bad_indices [[Num 1, Str ''None''], [Num 4, Num 5]] = {Suc 0}"
    by (simp add: bad_indices_def none_indices_def)
  from clean_data_companions
         [of "[[Num 1, Str ''None''], [Num 4, Num 5]]" "Some []" None "Some [Str ''d0'', Str ''d1'']"]
  show ?thesis unfolding bad by (simp add: keep_good_def numeral_2_eq_2)
qed

section \<open>Properties of the control chart\<close>

lemma bool_index_pair: "bool_index [a, b] c = (if c then b else a)"
  by (simp add: bool_index_def)

text \<open>
  Claim C2.  In the control chart and in the adjusted control chart alike, a value gets
  the out-of-control colour and alpha exactly when it is not strictly between the lower
  and the upper control limit, and the in-control colour and alpha otherwise.
\<close>

theorem classification_strict:
  "update_plot opts ucl lcl y =
     (map (\<lambda>value. if \<not> (lcl < value \<and> value < ucl) then CONTROL_CHART_OUT_OF_CONTROL_COLOR opts
                     else PLOT_COLOR opts) y,
      map (\<lambda>value. if \<not> (lcl < value \<and> value < ucl) then CONTROL_CHART_OUT_OF_CONTROL_ALPHA opts
                     else CONTROL_CHART_CIRCLE_ALPHA opts) y)
   \<and> update_adjusted_control_chart opts ucl lcl residuals =
     (map (\<lambda>value. if \<not> (lcl < value \<and> value < ucl) then CONTROL_CHART_OUT_OF_CONTROL_COLOR opts
                     else PLOT_COLOR opts) residuals,
      map (\<lambda>value. if \<not> (lcl < value \<and> value < ucl) then CONTROL_CHART_OUT_OF_CONTROL_ALPHA opts
                     else CONTROL_CHART_CIRCLE_ALPHA opts) residuals)"
  by (auto simp: update_plot_def update_adjusted_control_chart_def bool_index_pair Let_def)

theorem classification_strict_witness:
  "update_plot DefaultOptions 6 2 [1, 2, 4, 6, 7]
     = ([''red'', ''red'', ''blue'', ''red'', ''red''], [1, 1, 3 / 10, 1, 1])
   \<and> update_adjusted_control_chart DefaultOptions 6 2 [1, 2, 4, 6, 7]
     = ([''red'', ''red'', ''blue'', ''red'', ''red''], [1, 1, 3 / 10, 1, 1])"
  using classification_strict [of DefaultOptions 6 2 "[1, 2, 4, 6, 7]" "[1, 2, 4, 6, 7]"]
  by (simp add: DefaultOptions_def)

text \<open>
  Claim C3, as stated, fails: for the constant series 5, 5, 5, 5 the limits are
  5, 5, 5, but the points, lying on the limits, are not marked in control.
\<close>

theorem constant_series_counterexample:
  "\<not> (get_control_limits [5, 5, 5, 5] = Some (5, 5, 5)
       \<and> map_option (\<lambda>(center_line, ucl, lcl). update_plot DefaultOptions ucl lcl [5, 5, 5, 5])
              (get_control_limits [5, 5, 5, 5])
            = Some (replicate 4 (PLOT_COLOR DefaultOptions),
                    replicate 4 (CONTROL_CHART_CIRCLE_ALPHA DefaultOptions)))"
  by (simp add: get_control_limits_def mean_def moving_ranges_def SCALAR_D_def
        update_plot_def bool_index_def DefaultOptions_def numeral_eq_Suc)

text \<open>
  Claim C3, amended.  For the constant series 5, 5, 5, 5 the control limits are
  center 5, upper limit 5 and lower limit 5, and every point, lying exactly on the
  limits, gets the out-of-control colour and alpha: the comparison is strict on both
  sides.
\<close>

theorem constant_series_on_the_limit:
  "get_control_limits [5, 5, 5, 5] = Some (5, 5, 5)
   \<and> map_option (\<lambda>(center_line, ucl, lcl). update_plot DefaultOptions ucl lcl [5, 5, 5, 5])
          (get_control_limits [5, 5, 5, 5])
        = Some (replicate 4 (CONTROL_CHART_OUT_OF_CONTROL_COLOR DefaultOptions),
                replicate 4 (CONTROL_CHART_OUT_OF_CONTROL_ALPHA DefaultOptions))
   \<and> CONTROL_CHART_OUT_OF_CONTROL_COLOR DefaultOptions \<noteq> PLOT_COLOR DefaultOptions
   \<and> CONTROL_CHART_OUT_OF_CONTROL_ALPHA DefaultOptions \<noteq> CONTROL_CHART_CIRCLE_ALPHA DefaultOptions"
  by (simp add: get_control_limits_def mean_def moving_ranges_def SCALAR_D_def
        update_plot_def bool_index_def DefaultOptions_def numeral_eq_Suc)

section \<open>Properties of the time series\<close>

lemma percentile_50_odd:
  assumes "length a = 2 * m + 1"
  shows "np_percentile a 50 = Inr (sort a ! m)"
proof -
  from assms have ne: "a \<noteq> []" by auto
  have h: "(50::real) / 100 * real (length a - 1) = real m" using assms by simp
  show ?thesis unfolding np_percentile_def h using ne by (simp add: Let_def)
qed

lemma percentile_50_even:
  assumes "length a = 2 * m" "0 < m"
  shows "np_percentile a 50 = Inr ((sort a ! (m - 1) + sort a ! m) / 2)"
proof -
  from assms have ne: "a \<noteq> []" by auto
  have h: "(50::real) / 100 * real (length a - 1) = real m - 1 / 2"
    using assms by (simp add: of_nat_diff field_simps)
  have fl: "\<lfloor>real m - 1 / 2\<rfloor> = int m - 1" by linarith
  have lo: "nat (int m - 1) = m - 1" by simp
  have hi: "min (m - 1 + 1) (length a - 1) = m" using assms by simp
  have r: "real (m - 1) = real m - 1" using assms by (simp add: of_nat_diff)
  have "np_percentile a 50 =
     Inr (sort a ! (m - 1) + (real m - 1 / 2 - (real m - 1)) * (sort a ! m - sort a ! (m - 1)))"
    unfolding np_percentile_def h Let_def fl lo hi r using ne by simp
  also have "\<dots> = Inr ((sort a ! (m - 1) + sort a ! m) / 2)"
    by (simp add: field_simps)
  finally show ?thesis .
qed

lemma percentile_50_median:
  assumes "a \<noteq> []"
  shows "np_percentile a 50 =
    Inr (if odd (length a) then sort a ! (length a div 2)
         else (sort a ! (length a div 2 - 1) + sort a ! (length a div 2)) / 2)"
proof (cases "odd (length a)")
  case True
  then obtain m where m: "length a = 2 * m + 1" by (auto elim: oddE)
  with percentile_50_odd [OF m] True show ?thesis by simp
next
  case False
  then obtain m where m: "length a = 2 * m" by (auto elim: evenE)
  with assms have "0 < m" by (cases m) auto
  with percentile_50_even [OF m this] False m show ?thesis by simp
qed

text \<open>
  Claim C5.  For a non-empty numeric series and a coverage percentile \<open>p\<close> between 0
  and 100, the band is computed without error: its lower bound is the percentile at
  \<open>50 - p / 2\<close>, its upper bound the percentile at \<open>50 + p / 2\<close>, and its center
  the percentile at 50, which is the median of the series (the middle order statistic,
  or the mean of the two middle ones).  For 10, 20, 30, 40, 50 and \<open>p = 80\<close> the
  bounds are the 10th and the 90th percentile and the center is 30.
\<close>

theorem percentile_band_bounds:
  assumes "y_np \<noteq> []" and "0 \<le> p" and "p \<le> 100"
  shows "\<exists>lower avg upper.
           np_percentile y_np (50 - p / 2) = Inr lower
         \<and> np_percentile y_np 50 = Inr avg
         \<and> np_percentile y_np (50 + p / 2) = Inr upper
         \<and> percentile_band y_np p = Inr \<lparr>upper_bound = upper, average = avg, lower_bound = lower\<rparr>
         \<and> avg = (if odd (length y_np) then sort y_np ! (length y_np div 2)
                   else (sort y_np ! (length y_np div 2 - 1) + sort y_np ! (length y_np div 2)) / 2)"
proof -
  from assms obtain lower where l: "np_percentile y_np (50 - p / 2) = Inr lower"
    by (simp add: np_percentile_def Let_def)
  from assms obtain upper where u: "np_percentile y_np (50 + p / 2) = Inr upper"
    by (simp add: np_percentile_def Let_def)
  note m = percentile_50_median [OF assms(1)]
  from l u m show ?thesis by (simp add: percentile_band_def)
qed

theorem percentile_band_bounds_witness:
  "percentile_band [10, 20, 30, 40, 50] 80 = Inr \<lparr>upper_bound = 46, average = 30, lower_bound = 14\<rparr>
   \<and> np_percentile [10, 20, 30, 40, 50] 10 = Inr 14
   \<and> np_percentile [10, 20, 30, 40, 50] 90 = Inr 46"
proof -
  have ne: "[10, 20, 30, 40, 50 :: real] \<noteq> []" by simp
  have lo: "np_percentile [10, 20, 30, 40, 50] 10 = Inr 14"
    by (simp add: np_percentile_def Let_def)
  have hi: "np_percentile [10, 20, 30, 40, 50] 90 = Inr 46"
    by (simp add: np_percentile_def Let_def)
  have mid: "np_percentile [10, 20, 30, 40, 50] 50 = Inr 30"
    by (simp add: np_percentile_def Let_def)
  from percentile_band_bounds [OF ne, of 80] lo hi mid show ?thesis by simp
qed

lemma clear_source_columns: "map snd (clear_source d) = replicate (length d) []"
  by (induction d) (auto simp: clear_source_def)

lemma update_plot_data_empty:
  assumes "x = [] \<or> y = []"
  shows "column (src_plot (update_plot_data x y mrn uid s)) ''x'' = Inr []"
  using assms by (auto simp: update_plot_data_def column_def Let_def)

text \<open>
  Claim C8.  When the series handed to the time-series plot is empty, the trend
  computation returns without error and without calling the date collapsing, the moving
  average or the percentile: the state is unchanged, and every column of the trend,
  bound and patch sources, cleared before, is the empty list.
\<close>

theorem update_trend_empty_series:
  assumes "x = [] \<or> y = []"
  shows "update_trend collapse_into_single_dates moving_avg avg_len percentile
           (update_plot_data x y mrn uid (clear_sources s))
         = Inr (update_plot_data x y mrn uid (clear_sources s))
       \<and> map snd (src_trend (update_plot_data x y mrn uid (clear_sources s)))
           = replicate (length (src_trend s)) []
       \<and> map snd (src_bound (update_plot_data x y mrn uid (clear_sources s)))
           = replicate (length (src_bound s)) []
       \<and> map snd (src_patch (update_plot_data x y mrn uid (clear_sources s)))
           = replicate (length (src_patch s)) []"
proof -
  let ?t = "update_plot_data x y mrn uid (clear_sources s)"
  have x: "column (src_plot ?t) ''x'' = Inr []"
    using assms by (rule update_plot_data_empty)
  obtain ys where y: "column (src_plot ?t) ''y'' = Inr ys"
    by (simp add: update_plot_data_def column_def Let_def)
  have run: "update_trend collapse_into_single_dates moving_avg avg_len percentile ?t = Inr ?t"
    by (simp add: update_trend_def x y)
  have cols: "src_trend ?t = clear_source (src_trend s)"
    "src_bound ?t = clear_source (src_bound s)"
    "src_patch ?t = clear_source (src_patch s)"
    by (simp_all add: update_plot_data_def clear_sources_def Let_def)
  from run show ?thesis by (simp add: cols clear_source_columns)
qed

theorem update_trend_empty_series_witness:
  "update_trend (\<lambda>x y. Inl ValueError :: error + unit) (\<lambda>d n. Inl ValueError) 1 90
       (update_plot_data [] [] [] [] (clear_sources time_series_init))
     = Inr time_series_init
   \<and> map snd (src_trend time_series_init) = [[], [], []]"
proof -
  have st: "update_plot_data [] [] [] [] (clear_sources time_series_init) = time_series_init"
    by (simp add: update_plot_data_def clear_sources_def clear_source_def time_series_init_def)
  have "([]::pyval list) = [] \<or> ([]::pyval list) = []" by simp
  from update_trend_empty_series [OF this, of "\<lambda>x y. Inl ValueError :: error + unit"
         "\<lambda>d n. Inl ValueError" 1 90 "[]" "[]" time_series_init]
  show ?thesis unfolding st by (simp add: time_series_init_def)
qed

section \<open>Properties of the adjusted control chart\<close>

lemma append_sorted_run:
  assumes "\<forall>s \<in> set ss. s < length sort_index \<and> sort_index ! s < length dates
             \<and> sort_index ! s < length residuals \<and> sort_index ! s < length mrn
             \<and> sort_index ! s < length uid"
  shows "append_sorted dates residuals mrn uid sort_index ss (ds, rs, ms, us)
     = Inr (ds @ map (\<lambda>s. dates ! (sort_index ! s)) ss,
            rs @ map (\<lambda>s. residuals ! (sort_index ! s)) ss,
            ms @ map (\<lambda>s. mrn ! (sort_index ! s)) ss,
            us @ map (\<lambda>s. uid ! (sort_index ! s)) ss)"
  using assms
proof (induction ss arbitrary: ds rs ms us)
  case Nil
  show ?case by simp
next
  case (Cons s ss)
  from Cons.prems have rest: "\<forall>s \<in> set ss. s < length sort_index \<and> sort_index ! s < length dates
             \<and> sort_index ! s < length residuals \<and> sort_index ! s < length mrn
             \<and> sort_index ! s < length uid" by simp
  from Cons.prems have here: "s < length sort_index" "sort_index ! s < length dates"
    "sort_index ! s < length residuals" "sort_index ! s < length mrn" "sort_index ! s < length uid"
    by simp_all
  show ?case
    by (simp add: getitem_def here Cons.IH [OF rest])
qed

lemma map_through_index:
  assumes "length p = n"
  shows "map (\<lambda>s. f (p ! s)) [0..<n] = map f p"
proof -
  have "map (\<lambda>s. f (p ! s)) [0..<length p] = map f (map ((!) p) [0..<length p])"
    by (simp add: comp_def)
  also have "\<dots> = map f p" by (simp only: map_nth)
  finally show ?thesis using assms by simp
qed

lemma study_numbers: "map (\<lambda>i. int i + 1) [0..<n] = [1..int n]"
proof (induction n)
  case 0
  show ?case by simp
next
  case (Suc n)
  have "[1..int (Suc n)] = [1..int n] @ [int n + 1]"
    by (simp add: upto_rec2 add.commute)
  with Suc show ?case by simp
qed

text \<open>
  Claim C10.  For \<open>n\<close> studies (the five inputs all of length \<open>n\<close>)
  \<^verbatim>\<open>get_adjusted_control_chart\<close> returns, without error, the residuals, the
  patient ids, the study uids and the dates all rearranged by one and the same
  permutation \<open>p\<close> of the indices \<open>0, ..., n - 1\<close>: the one that sorts the dates in
  ascending order and keeps studies of equal date in their original order.  The
  returned dates are ascending and the returned \<open>x\<close> is \<open>1, 2, ..., n\<close>.
\<close>

theorem adjusted_chart_sorted_by_date:
  assumes "length y = n" and "length predictions = n" and "length mrn = n"
      and "length uid = n" and "length dates = n"
  shows "(let p = sort_key (\<lambda>k. dates ! k) [0..<n] in
           get_adjusted_control_chart y mrn uid dates predictions
             = Inr \<lparr>chart_x = [1..int n],
                    chart_residuals = map ((!) (map2 (-) y predictions)) p,
                    chart_mrn = map ((!) mrn) p,
                    chart_uid = map ((!) uid) p,
                    chart_dates = map ((!) dates) p\<rparr>
         \<and> mset p = mset [0..<n]
         \<and> sorted (map ((!) dates) p)
         \<and> (\<forall>d. filter (\<lambda>k. dates ! k = d) p = filter (\<lambda>k. dates ! k = d) [0..<n]))"
proof -
  define p where "p = sort_key (\<lambda>k. dates ! k) [0..<n]"
  have lp: "length p = n" by (simp add: p_def)
  have sp: "set p = {0..<n}" by (simp add: p_def)
  have res: "np_subtract y predictions = Inr (map2 (-) y predictions)"
    using assms by (simp add: np_subtract_def)
  have lr: "length (map2 (-) y predictions) = n" using assms by simp
  have inr: "\<forall>s \<in> set [0..<n]. s < length p \<and> p ! s < length dates
             \<and> p ! s < length (map2 (-) y predictions) \<and> p ! s < length mrn
             \<and> p ! s < length uid"
  proof
    fix s assume "s \<in> set [0..<n]"
    then have s: "s < length p" by (simp add: lp)
    then have "p ! s \<in> set p" by (rule nth_mem)
    then have "p ! s < n" by (simp add: sp)
    with s assms lr show "s < length p \<and> p ! s < length dates
             \<and> p ! s < length (map2 (-) y predictions) \<and> p ! s < length mrn
             \<and> p ! s < length uid" by simp
  qed
  have loop: "append_sorted dates (map2 (-) y predictions) mrn uid p [0..<n] ([], [], [], [])
      = Inr (map ((!) dates) p, map ((!) (map2 (-) y predictions)) p, map ((!) mrn) p, map ((!) uid) p)"
    using append_sorted_run [OF inr, of "[]" "[]" "[]" "[]"]
    by (simp add: map_through_index [OF lp])
  have run: "get_adjusted_control_chart y mrn uid dates predictions
             = Inr \<lparr>chart_x = [1..int n],
                    chart_residuals = map ((!) (map2 (-) y predictions)) p,
                    chart_mrn = map ((!) mrn) p,
                    chart_uid = map ((!) uid) p,
                    chart_dates = map ((!) dates) p\<rparr>"
    using assms loop
    by (simp add: get_adjusted_control_chart_def res Let_def p_def [symmetric] study_numbers)
  have perm: "mset p = mset [0..<n]" by (simp add: p_def)
  have srt: "sorted (map ((!) dates) p)"
    unfolding p_def by (rule sorted_sort_key)
  have stab: "\<forall>d. filter (\<lambda>k. dates ! k = d) p = filter (\<lambda>k. dates ! k = d) [0..<n]"
    unfolding p_def by (simp add: sort_key_stable)
  from run perm srt stab show ?thesis
    unfolding Let_def p_def by simp
qed

theorem adjusted_chart_sorted_by_date_witness:
  "get_adjusted_control_chart [3, 5, 4] [''a'', ''b'', ''c''] [''u1'', ''u2'', ''u3'']
       [20, 10, 20 :: int] [1, 1, 1]
     = Inr \<lparr>chart_x = [1, 2, 3], chart_residuals = [4, 2, 3],
            chart_mrn = [''b'', ''a'', ''c''], chart_uid = [''u2'', ''u1'', ''u3''],
            chart_dates = [10, 20, 20]\<rparr>"
proof -
  have up: "[0..<3] = [0, Suc 0, Suc (Suc 0)]" by (simp add: upt_rec numeral_eq_Suc)
  have p: "sort_key (\<lambda>k. [20, 10, 20 :: int] ! k) [0..<3] = [Suc 0, 0, Suc (Suc 0)]"
    unfolding up by simp
  have x: "[1..int 3] = [1, 2, 3]" by (simp add: upto_rec1)
  from adjusted_chart_sorted_by_date
         [of "[3, 5, 4]" 3 "[1, 1, 1]" "[''a'', ''b'', ''c'']" "[''u1'', ''u2'', ''u3'']"
             "[20, 10, 20 :: int]"]
  have "get_adjusted_control_chart [3, 5, 4] [''a'', ''b'', ''c''] [''u1'', ''u2'', ''u3'']
       [20, 10, 20 :: int] [1, 1, 1]
     = Inr \<lparr>chart_x = [1..int 3],
            chart_residuals = map ((!) (map2 (-) [3, 5, 4] [1, 1, 1])) [Suc 0, 0, Suc (Suc 0)],
            chart_mrn = map ((!) [''a'', ''b'', ''c'']) [Suc 0, 0, Suc (Suc 0)],
            chart_uid = map ((!) [''u1'', ''u2'', ''u3'']) [Suc 0, 0, Suc (Suc 0)],
            chart_dates = map ((!) [20, 10, 20]) [Suc 0, 0, Suc (Suc 0)]\<rparr>"
    unfolding Let_def p by simp
  then show ?thesis unfolding x by simp
qed

end
